theory Spec2Isabelle
  imports Main "HOL-Library.AList"
begin

section \<open>The event model of \<^verbatim>\<open>model/event.go\<close>\<close>

text \<open>
  \<^verbatim>\<open>type EventKind string\<close>: an event kind is any string; the two constants name the
  values the workflow language defines.
\<close>

type_synonym EventKind = string

definition EventKindConsumed :: EventKind where
  "EventKindConsumed = ''consumed''"

definition EventKindProduced :: EventKind where
  "EventKindProduced = ''produced''"

text \<open>\<^verbatim>\<open>type Correlation struct\<close>.\<close>

record Correlation =
  ContextAttributeName :: string
  ContextAttributeValue :: string

text \<open>
  \<^verbatim>\<open>type Event struct\<close>. The embedded \<^verbatim>\<open>Common\<close> is declared in another file of
  the package; its type is the parameter \<open>'c\<close>.
\<close>

record 'c Event =
  Common :: 'c
  Name :: string
  Source :: string
  Type :: string
  Kind :: EventKind
  DataOnly :: bool
  Correlation :: "Correlation list"

section \<open>Validation: the \<^verbatim>\<open>validate\<close> tags and the struct-level hook\<close>

text \<open>
  The validator (go-playground validator, version 8) walks a struct field by field in
  declaration order, checks each field against its \<^verbatim>\<open>validate\<close> tag, and then calls the
  struct-level function registered for the type. Every failure is stored in one map
  \<^verbatim>\<open>ValidationErrors\<close> from the field's namespace (the prefix of the enclosing structs
  and the field name) to a \<^verbatim>\<open>FieldError\<close>; storing under a namespace that is already
  there replaces the entry. The walk never stops at a failure. The map is an
  association list here, updated in place or extended at the end.
\<close>

record FieldError =
  Field :: string
  Tag :: string

type_synonym ValidationErrors = "(string \<times> FieldError) list"

text \<open>
  \<^verbatim>\<open>errs[errPrefix+fieldName] = &FieldError{Field: fieldName, Tag: tag, ...}\<close>: what
  \<^verbatim>\<open>StructLevel.ReportError\<close> and the tag checks both do.
\<close>

definition ReportError :: "string \<Rightarrow> string \<Rightarrow> string \<Rightarrow> ValidationErrors \<Rightarrow> ValidationErrors" where
  "ReportError errPrefix fieldName tag errs =
     AList.update (errPrefix @ fieldName) \<lparr>Field = fieldName, Tag = tag\<rparr> errs"

text \<open>
  The tag \<^verbatim>\<open>required\<close> on a field of kind string: the value must differ from the zero
  value \<^verbatim>\<open>""\<close>.
\<close>

definition required :: "string \<Rightarrow> string \<Rightarrow> string \<Rightarrow> ValidationErrors \<Rightarrow> ValidationErrors" where
  "required errPrefix fieldName v errs =
     (if v = [] then ReportError errPrefix fieldName ''required'' errs else errs)"

text \<open>The decimal numeral of a slice index, as \<^verbatim>\<open>%d\<close> prints it.\<close>

definition digit :: "nat \<Rightarrow> char" where
  "digit d = ''0123456789'' ! d"

function showNat :: "nat \<Rightarrow> string" where
  "showNat n = (if n < 10 then [digit n] else showNat (n div 10) @ [digit (n mod 10)])"
  by pat_completeness auto
termination
  by (relation "measure id") auto

declare showNat.simps [simp del]

text \<open>
  \<^verbatim>\<open>Correlation\<close>: \<^verbatim>\<open>ContextAttributeName\<close> carries \<^verbatim>\<open>validate:"required"\<close>,
  \<^verbatim>\<open>ContextAttributeValue\<close> carries no tag.
\<close>

definition validateCorrelation :: "string \<Rightarrow> Correlation \<Rightarrow> ValidationErrors \<Rightarrow> ValidationErrors" where
  "validateCorrelation errPrefix c errs =
     required errPrefix ''ContextAttributeName'' (ContextAttributeName c) errs"

text \<open>
  \<^verbatim>\<open>validate:"omitempty,dive"\<close> on \<^verbatim>\<open>Correlation []Correlation\<close>: a nil slice is skipped; otherwise
  each element, a struct, is walked under the prefix \<^verbatim>\<open>Correlation[i].\<close> A nil slice and
  an empty one are both the empty list, and both report nothing.
\<close>

fun diveCorrelation :: "string \<Rightarrow> nat \<Rightarrow> Correlation list \<Rightarrow> ValidationErrors \<Rightarrow> ValidationErrors" where
  "diveCorrelation errPrefix i [] errs = errs"
| "diveCorrelation errPrefix i (c # cs) errs =
     diveCorrelation errPrefix (Suc i) cs
       (validateCorrelation (errPrefix @ ''Correlation['' @ showNat i @ ''].'') c errs)"

text \<open>
  \<^verbatim>\<open>EventStructLevelValidation\<close>, the hook registered for \<^verbatim>\<open>Event\<close> in \<^verbatim>\<open>init\<close>:
  \<^verbatim>\<open>if event.Kind == EventKindConsumed && len(event.Type) == 0 { structLevel.ReportError(..., "Type", "type", "reqtypeconsumed") }\<close>.
\<close>

definition EventStructLevelValidation :: "string \<Rightarrow> 'c Event \<Rightarrow> ValidationErrors \<Rightarrow> ValidationErrors" where
  "EventStructLevelValidation errPrefix event errs =
     (if Kind event = EventKindConsumed \<and> length (Type event) = 0
      then ReportError errPrefix ''Type'' ''reqtypeconsumed'' errs
      else errs)"

text \<open>
  The walk over an \<^verbatim>\<open>Event\<close>, in declaration order: the embedded \<^verbatim>\<open>Common\<close> (its own
  walk is the parameter \<open>vCommon\<close>, under the prefix \<^verbatim>\<open>Common.\<close>), \<^verbatim>\<open>Name\<close>
  (\<^verbatim>\<open>required\<close>), \<^verbatim>\<open>Source\<close> (no tag), \<^verbatim>\<open>Type\<close> (\<^verbatim>\<open>required\<close>), \<^verbatim>\<open>Kind\<close> and
  \<^verbatim>\<open>DataOnly\<close> (no tag), \<^verbatim>\<open>Correlation\<close> (\<^verbatim>\<open>omitempty,dive\<close>), and then the hook.
\<close>

definition validateEvent ::
  "(string \<Rightarrow> 'c \<Rightarrow> ValidationErrors \<Rightarrow> ValidationErrors) \<Rightarrow> string \<Rightarrow> 'c Event \<Rightarrow>
     ValidationErrors \<Rightarrow> ValidationErrors" where
  "validateEvent vCommon errPrefix e errs0 =
     (let errs1 = vCommon (errPrefix @ ''Common.'') (Common e) errs0;
          errs2 = required errPrefix ''Name'' (Name e) errs1;
          errs3 = required errPrefix ''Type'' (Type e) errs2;
          errs4 = diveCorrelation errPrefix 0 (Correlation e) errs3
      in EventStructLevelValidation errPrefix e errs4)"

text \<open>
  \<^verbatim>\<open>Validate.Struct\<close> on an \<^verbatim>\<open>Event\<close>: the walk starts from the empty map under the
  prefix \<^verbatim>\<open>Event.\<close>; the result is \<^verbatim>\<open>nil\<close> (here \<open>None\<close>) exactly when the map
  is still empty.
\<close>

definition Struct_Event ::
  "(string \<Rightarrow> 'c \<Rightarrow> ValidationErrors \<Rightarrow> ValidationErrors) \<Rightarrow> 'c Event \<Rightarrow> ValidationErrors option" where
  "Struct_Event vCommon e =
     (let errs = validateEvent vCommon ''Event.'' e []
      in if errs = [] then None else Some errs)"

text \<open>A \<^verbatim>\<open>Common\<close> whose walk reports nothing.\<close>

definition noCommon :: "string \<Rightarrow> unit \<Rightarrow> ValidationErrors \<Rightarrow> ValidationErrors" where
  "noCommon errPrefix c errs = errs"

section \<open>Decoding: the \<^verbatim>\<open>json\<close> tags\<close>

text \<open>
  A decoded document is a tree of scalars, sequences and mappings; a mapping keeps its
  entries in document order. Numbers are integers here: no field of this file is
  numeric, so to these structs every number is a value of the wrong kind.
\<close>

datatype json =
    JNull
  | JBool bool
  | JNumber int
  | JString string
  | JArray "json list"
  | JObject "(string \<times> json) list"

text \<open>
  \<^verbatim>\<open>json.UnmarshalTypeError{Value, Field}\<close>: a value of the wrong kind for a field. The
  decoder returns the first one it met; a caller that gets an error has no model.
\<close>

datatype error = UnmarshalTypeError string string

fun jsonKind :: "json \<Rightarrow> string" where
  "jsonKind JNull = ''null''"
| "jsonKind (JBool b) = ''bool''"
| "jsonKind (JNumber n) = ''number''"
| "jsonKind (JString s) = ''string''"
| "jsonKind (JArray xs) = ''array''"
| "jsonKind (JObject kvs) = ''object''"

text \<open>
  None of the types of this file declares an \<^verbatim>\<open>UnmarshalJSON\<close>, so
  \<^verbatim>\<open>encoding/json\<close> decodes them field by field from their \<^verbatim>\<open>json\<close> tags: a key
  of the document selects the field whose tag name it equals, or else the first field
  whose tag name it equals under Unicode simple case folding; a key that selects no field
  is skipped; a field no key selects keeps the value it had; when a key occurs twice the
  later value is stored over the earlier.

  Strings are sequences of bytes, a key in UTF-8. The tag names are ASCII, and the only
  characters outside ASCII that fold to an ASCII letter are the long s, U+017F (bytes
  C5 BF), which folds to s, and the Kelvin sign, U+212A (bytes E2 84 AA), which folds to
  k. \<open>foldName\<close> takes a name to its folded form: those two characters to \<open>s\<close> and
  \<open>k\<close>, the ASCII capitals to small letters, every other byte to itself.
\<close>

definition toLower :: "char \<Rightarrow> char" where
  "toLower c =
     (case map_of (zip ''ABCDEFGHIJKLMNOPQRSTUVWXYZ'' ''abcdefghijklmnopqrstuvwxyz'') c of
        None \<Rightarrow> c
      | Some d \<Rightarrow> d)"

fun foldName :: "string \<Rightarrow> string" where
  "foldName [] = []"
| "foldName (a # cs) =
     (if a = CHR 0xC5 \<and> take 1 cs = [CHR 0xBF] then CHR ''s'' # foldName (drop 1 cs)
      else if a = CHR 0xE2 \<and> take 2 cs = [CHR 0x84, CHR 0xAA] then CHR ''k'' # foldName (drop 2 cs)
      else toLower a # foldName cs)"

definition equalFold :: "string \<Rightarrow> string \<Rightarrow> bool" where
  "equalFold s t = (foldName s = foldName t)"

definition fieldByKey :: "string list \<Rightarrow> string \<Rightarrow> string option" where
  "fieldByKey names key =
     (if key \<in> set names then Some key else find (\<lambda>n. equalFold n key) names)"

fun decodeObject ::
  "string list \<Rightarrow> (string \<Rightarrow> json \<Rightarrow> 'a \<Rightarrow> error + 'a) \<Rightarrow> (string \<times> json) list \<Rightarrow> 'a \<Rightarrow> error + 'a" where
  "decodeObject names setField [] x = Inr x"
| "decodeObject names setField ((k, v) # kvs) x =
     (case fieldByKey names k of
        None \<Rightarrow> decodeObject names setField kvs x
      | Some f \<Rightarrow>
          (case setField f v x of
             Inl e \<Rightarrow> Inl e
           | Inr x' \<Rightarrow> decodeObject names setField kvs x'))"

text \<open>A struct takes a mapping; \<^verbatim>\<open>null\<close> leaves it as it was.\<close>

definition decodeStruct ::
  "string \<Rightarrow> string list \<Rightarrow> (string \<Rightarrow> json \<Rightarrow> 'a \<Rightarrow> error + 'a) \<Rightarrow> json \<Rightarrow> 'a \<Rightarrow> error + 'a" where
  "decodeStruct what names setField v x =
     (case v of
        JNull \<Rightarrow> Inr x
      | JObject kvs \<Rightarrow> decodeObject names setField kvs x
      | _ \<Rightarrow> Inl (UnmarshalTypeError (jsonKind v) what))"

text \<open>
  A field of kind string (also of a named string type such as \<^verbatim>\<open>EventKind\<close>) takes a
  string, a field of kind bool a boolean; \<^verbatim>\<open>null\<close> leaves either as it was.
\<close>

definition decodeString :: "string \<Rightarrow> json \<Rightarrow> string \<Rightarrow> error + string" where
  "decodeString field v cur =
     (case v of
        JNull \<Rightarrow> Inr cur
      | JString s \<Rightarrow> Inr s
      | _ \<Rightarrow> Inl (UnmarshalTypeError (jsonKind v) field))"

definition decodeBool :: "string \<Rightarrow> json \<Rightarrow> bool \<Rightarrow> error + bool" where
  "decodeBool field v cur =
     (case v of
        JNull \<Rightarrow> Inr cur
      | JBool b \<Rightarrow> Inr b
      | _ \<Rightarrow> Inl (UnmarshalTypeError (jsonKind v) field))"

text \<open>The result of decoding one field, stored into the struct by \<open>put\<close>.\<close>

definition store :: "error + 'v \<Rightarrow> ('v \<Rightarrow> 'a) \<Rightarrow> error + 'a" where
  "store r put = (case r of Inl e \<Rightarrow> Inl e | Inr y \<Rightarrow> Inr (put y))"

text \<open>A slice takes a sequence, each element decoded into a fresh zero value.\<close>

fun decodeElements :: "(json \<Rightarrow> error + 'a) \<Rightarrow> json list \<Rightarrow> error + 'a list" where
  "decodeElements dec [] = Inr []"
| "decodeElements dec (v # vs) =
     (case dec v of
        Inl e \<Rightarrow> Inl e
      | Inr y \<Rightarrow> (case decodeElements dec vs of Inl e \<Rightarrow> Inl e | Inr ys \<Rightarrow> Inr (y # ys)))"

subsection \<open>\<^verbatim>\<open>Correlation\<close> and \<^verbatim>\<open>Event\<close>\<close>

definition zeroCorrelation :: Correlation where
  "zeroCorrelation = \<lparr>ContextAttributeName = [], ContextAttributeValue = []\<rparr>"

definition setCorrelationField :: "string \<Rightarrow> json \<Rightarrow> Correlation \<Rightarrow> error + Correlation" where
  "setCorrelationField f v c =
     (if f = ''contextAttributeName''
      then store (decodeString f v (ContextAttributeName c)) (\<lambda>s. c\<lparr>ContextAttributeName := s\<rparr>)
      else store (decodeString f v (ContextAttributeValue c)) (\<lambda>s. c\<lparr>ContextAttributeValue := s\<rparr>))"

definition decodeCorrelation :: "json \<Rightarrow> error + Correlation" where
  "decodeCorrelation v =
     decodeStruct ''Correlation'' [''contextAttributeName'', ''contextAttributeValue'']
       setCorrelationField v zeroCorrelation"

definition decodeCorrelations :: "json \<Rightarrow> Correlation list \<Rightarrow> error + Correlation list" where
  "decodeCorrelations v cur =
     (case v of
        JNull \<Rightarrow> Inr []
      | JArray vs \<Rightarrow> decodeElements decodeCorrelation vs
      | _ \<Rightarrow> Inl (UnmarshalTypeError (jsonKind v) ''correlation''))"

text \<open>The zero \<^verbatim>\<open>Event\<close> around a given \<^verbatim>\<open>Common\<close>.\<close>

definition zeroEvent :: "'c \<Rightarrow> 'c Event" where
  "zeroEvent c =
     \<lparr>Common = c, Name = [], Source = [], Type = [], Kind = [], DataOnly = False,
      Correlation = []\<rparr>"

text \<open>
  The tag names of the fields \<^verbatim>\<open>Event\<close> declares itself. The keys of the embedded
  \<^verbatim>\<open>Common\<close> select none of them and leave them alone; what they do to \<^verbatim>\<open>Common\<close>
  is outside this file.
\<close>

definition eventFields :: "string list" where
  "eventFields = [''name'', ''source'', ''type'', ''kind'', ''dataOnly'', ''correlation'']"

definition setEventField :: "string \<Rightarrow> json \<Rightarrow> 'c Event \<Rightarrow> error + 'c Event" where
  "setEventField f v e =
     (if f = ''name'' then store (decodeString f v (Name e)) (\<lambda>s. e\<lparr>Name := s\<rparr>)
      else if f = ''source'' then store (decodeString f v (Source e)) (\<lambda>s. e\<lparr>Source := s\<rparr>)
      else if f = ''type'' then store (decodeString f v (Type e)) (\<lambda>s. e\<lparr>Type := s\<rparr>)
      else if f = ''kind'' then store (decodeString f v (Kind e)) (\<lambda>s. e\<lparr>Kind := s\<rparr>)
      else if f = ''dataOnly'' then store (decodeBool f v (DataOnly e)) (\<lambda>b. e\<lparr>DataOnly := b\<rparr>)
      else store (decodeCorrelations v (Correlation e)) (\<lambda>cs. e\<lparr>Correlation := cs\<rparr>))"

text \<open>\<^verbatim>\<open>json.Unmarshal(data, &event)\<close> on a zero \<^verbatim>\<open>Event\<close>.\<close>

definition decodeEvent :: "'c \<Rightarrow> json \<Rightarrow> error + 'c Event" where
  "decodeEvent c v = decodeStruct ''Event'' eventFields setEventField v (zeroEvent c)"

subsection \<open>\<^verbatim>\<open>EventRef\<close>\<close>










section \<open>The stages of the pipeline outside \<^verbatim>\<open>event.go\<close>\<close>

text \<open>
  The decoder of the workflow document and the state and retry types live in files of
  the repository other than \<^verbatim>\<open>model/event.go\<close>. The definitions of this section
  follow the specification's description of those stages, with the key names of the test
  documents under \<^verbatim>\<open>parser/testdata\<close> and the field names the parser's tests read.
\<close>

text \<open>
  Modelled from the spec: the document loader's mappings (section 4.1, "last write wins
  on duplicate keys"); the loader itself is missing. The value of a key is that of its
  last entry.
\<close>

definition lookupKey :: "(string \<times> json) list \<Rightarrow> string \<Rightarrow> json option" where
  "lookupKey kvs k = map_of (rev kvs) k"

text \<open>
  Modelled from the spec: a violation (section 6: a field path, an expected-versus-found
  description and a stable reason code); the validator's report type is missing.
\<close>

record Violation =
  FieldPath :: string
  Expected :: string
  ReasonCode :: string

text \<open>
  Modelled from the spec: the error taxonomy of the pipeline (section 7); the parser's
  error values are missing. An unsupported type carries the field path and the offending
  value, a validation error the list of violations.
\<close>

datatype pipelineError =
    FormatError
  | UnsupportedTypeError string json
  | ValidationError "Violation list"

subsection \<open>The polymorphic resolver for states\<close>

text \<open>
  Modelled from the spec: the discriminator of a state (section 4.2: read from the field
  \<^verbatim>\<open>type\<close>; "state type defaults to operation" when the field is absent); the
  decoder of states is missing.
\<close>

definition stateDiscriminator :: "(string \<times> json) list \<Rightarrow> json" where
  "stateDiscriminator kvs =
     (case lookupKey kvs ''type'' of None \<Rightarrow> JString ''operation'' | Some v \<Rightarrow> v)"

text \<open>
  Modelled from the spec: resolving one state (section 4.2); the decoder of states is
  missing. The discriminator is matched against the closed enumeration, here the keys of
  the registry of discriminator-to-variant mappings (section 5), whose entries decode the
  subtree into the variant's shape; a value outside it fails with
  \<^verbatim>\<open>UnsupportedTypeError\<close> naming the path of the field and the value.
\<close>

definition resolveState ::
  "(string \<times> ((string \<times> json) list \<Rightarrow> 's)) list \<Rightarrow> string \<Rightarrow> (string \<times> json) list \<Rightarrow>
     pipelineError + 's" where
  "resolveState registry p kvs =
     (case stateDiscriminator kvs of
        JString t \<Rightarrow>
          (case map_of registry t of
             None \<Rightarrow> Inl (UnsupportedTypeError (p @ ''.type'') (JString t))
           | Some dec \<Rightarrow> Inr (dec kvs))
      | v \<Rightarrow> Inl (UnsupportedTypeError (p @ ''.type'') v))"

text \<open>
  Modelled from the spec: the field path of the state at an index of the sequence
  \<^verbatim>\<open>states\<close>; the spec asks for a path and fixes no notation, the decoder of
  states is missing.
\<close>

definition statePath :: "nat \<Rightarrow> string" where
  "statePath i = ''states['' @ showNat i @ '']''"

text \<open>
  Modelled from the spec: resolving the sequence of states in document order (sections
  4.1 and 4.2); the decoder of states is missing. An unsupported type is fatal to the call
  (section 7): resolution does not proceed past it.
\<close>

fun resolveStates ::
  "(string \<times> ((string \<times> json) list \<Rightarrow> 's)) list \<Rightarrow> nat \<Rightarrow> (string \<times> json) list list \<Rightarrow>
     pipelineError + 's list" where
  "resolveStates registry i [] = Inr []"
| "resolveStates registry i (kvs # rest) =
     (case resolveState registry (statePath i) kvs of
        Inl e \<Rightarrow> Inl e
      | Inr s \<Rightarrow>
          (case resolveStates registry (Suc i) rest of
             Inl e \<Rightarrow> Inl e
           | Inr ss \<Rightarrow> Inr (s # ss)))"

text \<open>
  Modelled from the spec: a state whose discriminator is in the closed enumeration
  (section 4.2); the decoder of states is missing.
\<close>

definition recognised ::
  "(string \<times> ((string \<times> json) list \<Rightarrow> 's)) list \<Rightarrow> (string \<times> json) list \<Rightarrow> bool" where
  "recognised registry kvs =
     (case stateDiscriminator kvs of JString t \<Rightarrow> map_of registry t \<noteq> None | _ \<Rightarrow> False)"

subsection \<open>Int-or-string\<close>

text \<open>
  Modelled from the spec: the value of a decimal digit; the int-or-string type is missing.
\<close>

definition digitValue :: "char \<Rightarrow> nat option" where
  "digitValue c = map_of (zip ''0123456789'' [0..<10]) c"

text \<open>
  Modelled from the spec: reading a run of decimal digits; the int-or-string type is
  missing.
\<close>

fun parseDigits :: "nat \<Rightarrow> string \<Rightarrow> nat option" where
  "parseDigits acc [] = Some acc"
| "parseDigits acc (c # cs) =
     (case digitValue c of None \<Rightarrow> None | Some d \<Rightarrow> parseDigits (10 * acc + d) cs)"

text \<open>
  Modelled from the spec: a numeric string (glossary, int-or-string), read as a decimal
  integer with an optional minus sign; the int-or-string type is missing.
\<close>

definition numericString :: "string \<Rightarrow> int option" where
  "numericString s =
     (case s of
        [] \<Rightarrow> None
      | c # ds \<Rightarrow>
          if c = CHR ''-''
          then (if ds = [] then None else map_option (\<lambda>n. - int n) (parseDigits 0 ds))
          else map_option int (parseDigits 0 s))"

text \<open>
  Modelled from the spec: int-or-string (glossary: "a field accepting either a numeric
  literal or a numeric string, normalized to a single numeric representation"); the
  int-or-string type is missing.
\<close>

definition intOrString :: "json \<Rightarrow> int option" where
  "intOrString v =
     (case v of JNumber n \<Rightarrow> Some n | JString s \<Rightarrow> numericString s | _ \<Rightarrow> None)"

text \<open>
  Modelled from the spec: a retry strategy (section 3: name, delay, max-delay,
  max-attempts, multiplier, jitter); the retry type is missing. Only max-attempts is
  normalised; the other fields stay as the document gives them.
\<close>

record Retry =
  RetryName :: "json option"
  Delay :: "json option"
  MaxDelay :: "json option"
  MaxAttempts :: "int option"
  Multiplier :: "json option"
  Jitter :: "json option"

text \<open>
  Modelled from the spec: resolving a retry strategy from its mapping (section 3); the
  retry type and its decoder are missing.
\<close>

definition resolveRetry :: "(string \<times> json) list \<Rightarrow> Retry" where
  "resolveRetry kvs =
     \<lparr>RetryName = lookupKey kvs ''name'', Delay = lookupKey kvs ''delay'',
      MaxDelay = lookupKey kvs ''maxDelay'',
      MaxAttempts = Option.bind (lookupKey kvs ''maxAttempts'') intOrString,
      Multiplier = lookupKey kvs ''multiplier'', Jitter = lookupKey kvs ''jitter''\<rparr>"

text \<open>
  Modelled from the spec: the other way to write a numeric string (section 8,
  int-or-string: the numeric string \<^verbatim>\<open>"10"\<close> and the number \<^verbatim>\<open>10\<close>); the
  int-or-string type is missing. A numeric string becomes the number it reads as, every
  other value stays.
\<close>

definition asNumberValue :: "json \<Rightarrow> json" where
  "asNumberValue v =
     (case v of
        JString s \<Rightarrow> (case numericString s of Some n \<Rightarrow> JNumber n | None \<Rightarrow> v)
      | _ \<Rightarrow> v)"

text \<open>
  Modelled from the spec: the document of a retry strategy with max-attempts written as a
  number wherever it is written as a numeric string, and nothing else changed (section 8,
  int-or-string); the retry type is missing.
\<close>

definition numberAttempts :: "(string \<times> json) list \<Rightarrow> (string \<times> json) list" where
  "numberAttempts kvs =
     map (\<lambda>(k, v). if k = ''maxAttempts'' then (k, asNumberValue v) else (k, v)) kvs"

text \<open>
  Modelled from the spec: \<^verbatim>\<open>validate\<close> (section 4.4); the entry point that validates a
  workflow is missing. It takes the resolved raw workflow and nothing of the document:
  the structural pass and the graph pass both run on it, their violations are collected
  into one error, and only a raw workflow with no violation is converted into the model.
  The rule tables of the two passes and the conversion are parameters.
\<close>

definition validate ::
  "('raw \<Rightarrow> Violation list) \<Rightarrow> ('raw \<Rightarrow> Violation list) \<Rightarrow> ('raw \<Rightarrow> 'model) \<Rightarrow> 'raw \<Rightarrow>
     pipelineError + 'model" where
  "validate structuralPass graphPass toModel raw =
     (let vs = structuralPass raw @ graphPass raw
      in if vs = [] then Inr (toModel raw) else Inl (ValidationError vs))"

text \<open>
  Modelled from the spec: the field path of the retry strategy at an index of the
  sequence \<^verbatim>\<open>retries\<close>; the spec asks for a path and fixes no notation, the
  validation of retry strategies is missing.
\<close>

definition retryPath :: "nat \<Rightarrow> string" where
  "retryPath i = ''retries['' @ showNat i @ '']''"

text \<open>
  Modelled from the spec: a rule of the structural pass for retry strategies (section
  4.4, "required-field presence"; section 3, a retry has a name); the validation of retry
  strategies is missing.
\<close>

fun retryNameRequired :: "nat \<Rightarrow> Retry list \<Rightarrow> Violation list" where
  "retryNameRequired i [] = []"
| "retryNameRequired i (r # rs) =
     (case RetryName r of
        Some (JString (c # cs)) \<Rightarrow> []
      | _ \<Rightarrow> [\<lparr>FieldPath = retryPath i @ ''.name'', Expected = ''a name'',
              ReasonCode = ''required''\<rparr>]) @
     retryNameRequired (Suc i) rs"

text \<open>
  Modelled from the spec: a rule of the graph pass for retry strategies (section 3,
  "name (unique)"); the validation of retry strategies is missing.
\<close>

definition retryNameUnique :: "Retry list \<Rightarrow> Violation list" where
  "retryNameUnique rs =
     (if distinct (filter (\<lambda>n. n \<noteq> None) (map RetryName rs)) then []
      else [\<lparr>FieldPath = ''retries'', Expected = ''names that differ'',
             ReasonCode = ''unique''\<rparr>])"

section \<open>Facts about the walk\<close>

lemma ReportError_nonempty: "ReportError p f t errs \<noteq> []"
  by (simp add: ReportError_def)

lemma required_empty_iff: "required p f v errs = [] \<longleftrightarrow> errs = [] \<and> v \<noteq> []"
  by (simp add: required_def ReportError_nonempty)

lemma validateCorrelation_empty_iff:
  "validateCorrelation p c errs = [] \<longleftrightarrow> errs = [] \<and> ContextAttributeName c \<noteq> []"
  by (simp add: validateCorrelation_def required_empty_iff)

lemma diveCorrelation_empty_iff:
  "diveCorrelation p i cs errs = [] \<longleftrightarrow>
     errs = [] \<and> (\<forall>c \<in> set cs. ContextAttributeName c \<noteq> [])"
  by (induction cs arbitrary: i errs) (auto simp: validateCorrelation_empty_iff)

lemma EventStructLevelValidation_empty_iff:
  "EventStructLevelValidation p e errs = [] \<longleftrightarrow>
     errs = [] \<and> \<not> (Kind e = EventKindConsumed \<and> Type e = [])"
  by (simp add: EventStructLevelValidation_def ReportError_nonempty)

lemma validateEvent_empty_iff:
  "validateEvent vc p e errs = [] \<longleftrightarrow>
     vc (p @ ''Common.'') (Common e) errs = [] \<and> Name e \<noteq> [] \<and> Type e \<noteq> [] \<and>
     (\<forall>c \<in> set (Correlation e). ContextAttributeName c \<noteq> [])"
  by (auto simp: validateEvent_def Let_def EventStructLevelValidation_empty_iff
      diveCorrelation_empty_iff required_empty_iff)

lemma Struct_Event_None_iff:
  "Struct_Event vc e = None \<longleftrightarrow>
     vc ''Event.Common.'' (Common e) [] = [] \<and> Name e \<noteq> [] \<and> Type e \<noteq> [] \<and>
     (\<forall>c \<in> set (Correlation e). ContextAttributeName c \<noteq> [])"
  using validateEvent_empty_iff [of vc "''Event.''" e "[]"]
  by (simp add: Struct_Event_def Let_def)

lemma diveCorrelation_value_irrelevant:
  "diveCorrelation p i (map (\<lambda>c. c\<lparr>ContextAttributeValue := v c\<rparr>) cs) errs =
     diveCorrelation p i cs errs"
  by (induction cs arbitrary: i errs) (simp_all add: validateCorrelation_def)

lemma ReportError_lookup:
  "map_of (ReportError p f t errs) (p @ f) = Some \<lparr>Field = f, Tag = t\<rparr>"
  by (simp add: ReportError_def AList.update_conv')

lemma ReportError_other: "k \<noteq> p @ f \<Longrightarrow> map_of (ReportError p f t errs) k = map_of errs k"
  by (simp add: ReportError_def AList.update_conv')

lemma diveCorrelation_keeps_Type:
  "map_of (diveCorrelation p i cs errs) (p @ ''Type'') = map_of errs (p @ ''Type'')"
  by (induction cs arbitrary: i errs)
     (simp_all add: validateCorrelation_def required_def ReportError_other)

section \<open>The event kind and the type field\<close>

text \<open>
  C1, as the spec states it: an \<^verbatim>\<open>Event\<close> with an empty type passes structural
  validation when its kind is produced. It does not: \<^verbatim>\<open>Type\<close> carries the tag
  \<^verbatim>\<open>required\<close>, and the produced event below, empty in nothing but its type, comes back
  with that violation.
\<close>

theorem produced_Event_empty_Type_fails:
  "Struct_Event noCommon
     \<lparr>Common = (), Name = ''provisioningCompleteEvent'', Source = [], Type = [],
      Kind = EventKindProduced, DataOnly = False, Correlation = []\<rparr> =
   Some [(''Event.Type'', \<lparr>Field = ''Type'', Tag = ''required''\<rparr>)]"
  by (simp add: Struct_Event_def validateEvent_def noCommon_def required_def ReportError_def
      EventStructLevelValidation_def EventKindProduced_def EventKindConsumed_def)

text \<open>
  C1, amended: an \<^verbatim>\<open>Event\<close> whose type is empty fails structural validation whatever
  its kind. The kind decides only which rule the violation stored for \<^verbatim>\<open>Type\<close> names:
  \<^verbatim>\<open>reqtypeconsumed\<close>, reported by the struct-level hook over the tag's entry, when the
  kind is consumed, and \<^verbatim>\<open>required\<close> otherwise.
\<close>

theorem Event_empty_Type_is_violation:
  "Type e = [] \<longrightarrow>
     Struct_Event vCommon e \<noteq> None \<and>
     map_of (validateEvent vCommon errPrefix e errs) (errPrefix @ ''Type'') =
       Some \<lparr>Field = ''Type'',
             Tag = (if Kind e = EventKindConsumed then ''reqtypeconsumed'' else ''required'')\<rparr>"
  by (simp add: Struct_Event_None_iff validateEvent_def Let_def EventStructLevelValidation_def
      ReportError_lookup diveCorrelation_keeps_Type required_def)

theorem Event_empty_Type_is_violation_witness:
  "Struct_Event noCommon
     \<lparr>Common = (), Name = ''e'', Source = [], Type = [], Kind = EventKindConsumed,
      DataOnly = False, Correlation = []\<rparr> \<noteq> None \<and>
   map_of (validateEvent noCommon ''Event.''
       \<lparr>Common = (), Name = ''e'', Source = [], Type = [], Kind = EventKindConsumed,
        DataOnly = False, Correlation = []\<rparr> []) ''Event.Type'' =
     Some \<lparr>Field = ''Type'', Tag = ''reqtypeconsumed''\<rparr>"
  using Event_empty_Type_is_violation
    [of "\<lparr>Common = (), Name = ''e'', Source = [], Type = [], Kind = EventKindConsumed,
          DataOnly = False, Correlation = []\<rparr>" noCommon "''Event.''" "[]"]
  by simp

section \<open>Correlation entries\<close>

text \<open>
  C10: an \<^verbatim>\<open>Event\<close> that passes validation has a non-empty
  \<^verbatim>\<open>contextAttributeName\<close> in every entry of its correlation list, and validation does not
  look at \<^verbatim>\<open>contextAttributeValue\<close>: replacing the values by anything, the empty string
  of an omitted one included, changes nothing in the result.
\<close>

theorem Correlation_name_required_value_free:
  "(Struct_Event vCommon e = None \<longrightarrow>
      (\<forall>c \<in> set (Correlation e). ContextAttributeName c \<noteq> [])) \<and>
   Struct_Event vCommon
       (e\<lparr>Correlation := map (\<lambda>c. c\<lparr>ContextAttributeValue := v c\<rparr>) (Correlation e)\<rparr>) =
     Struct_Event vCommon e"
proof (intro conjI impI)
  assume "Struct_Event vCommon e = None"
  then show "\<forall>c \<in> set (Correlation e). ContextAttributeName c \<noteq> []"
    by (simp add: Struct_Event_None_iff)
next
  show "Struct_Event vCommon
       (e\<lparr>Correlation := map (\<lambda>c. c\<lparr>ContextAttributeValue := v c\<rparr>) (Correlation e)\<rparr>) =
     Struct_Event vCommon e"
    by (simp add: Struct_Event_def validateEvent_def Let_def
        diveCorrelation_value_irrelevant EventStructLevelValidation_def)
qed

theorem Correlation_name_required_value_free_witness:
  "Struct_Event noCommon
     \<lparr>Common = (), Name = ''HighBodyTemperature'', Source = [],
      Type = ''org.monitor.highBodyTemp'', Kind = EventKindConsumed, DataOnly = False,
      Correlation = [\<lparr>ContextAttributeName = ''patientId'', ContextAttributeValue = []\<rparr>]\<rparr> =
     None \<and>
   ContextAttributeName \<lparr>ContextAttributeName = ''patientId'', ContextAttributeValue = []\<rparr> \<noteq> []"
  using Correlation_name_required_value_free
    [of noCommon
        "\<lparr>Common = (), Name = ''HighBodyTemperature'', Source = [],
          Type = ''org.monitor.highBodyTemp'', Kind = EventKindConsumed, DataOnly = False,
          Correlation = [\<lparr>ContextAttributeName = ''patientId'', ContextAttributeValue = []\<rparr>]\<rparr>"]
  by (simp add: Struct_Event_None_iff noCommon_def)

section \<open>Facts about decoding\<close>


text \<open>
  A field that no key of the mapping selects keeps its value: \<open>proj\<close> reads the field,
  and storing into any other field leaves \<open>proj\<close> alone.
\<close>

lemma decodeObject_untouched:
  assumes "decodeObject names setField kvs x = Inr y"
    and "\<forall>k \<in> fst ` set kvs. fieldByKey names k \<noteq> Some f"
    and "\<And>g v a b. g \<noteq> f \<Longrightarrow> setField g v a = Inr b \<Longrightarrow> proj b = proj a"
  shows "proj y = proj x"
  using assms(1,2)
proof (induction kvs arbitrary: x)
  case Nil
  then show ?case by simp
next
  case (Cons kv kvs)
  obtain k v where kv: "kv = (k, v)" by (cases kv)
  show ?case
  proof (cases "fieldByKey names k")
    case None
    with Cons kv show ?thesis by simp
  next
    case (Some g)
    with Cons.prems kv have g: "g \<noteq> f" by auto
    from Cons.prems(1) kv Some obtain x' where
      x': "setField g v x = Inr x'" and rest: "decodeObject names setField kvs x' = Inr y"
      by (auto split: sum.splits)
    from Cons.IH [OF rest] Cons.prems(2) have "proj y = proj x'" by simp
    with assms(3) [OF g x'] show ?thesis by simp
  qed
qed



















lemmas decode_concrete =
  decodeStruct_def fieldByKey_def store_def decodeString_def equalFold_def toLower_def

section \<open>The two spellings of an event reference\<close>




section \<open>The kind of an event that does not give one\<close>

text \<open>
  C8 at the first event of \<^verbatim>\<open>eventbasedswitch.sw.json\<close>, which gives a name, a type and
  a source and no kind. The field comment of \<^verbatim>\<open>Kind\<close> says the default is consumed;
  the decoded event has the empty kind, which is not \<^verbatim>\<open>EventKindConsumed\<close>. The
  struct-level hook shows the difference: on an event decoded from a name alone it reports
  nothing, where it reports \<^verbatim>\<open>reqtypeconsumed\<close> once the document says consumed.
  A kind the document gives is kept as given.
\<close>

theorem Event_kind_absent_is_empty:
  "decodeEvent () (JObject [(''name'', JString ''visaApprovedEvent''),
       (''type'', JString ''VisaApproved''), (''source'', JString ''visaCheckSource'')]) =
     Inr \<lparr>Common = (), Name = ''visaApprovedEvent'', Source = ''visaCheckSource'',
          Type = ''VisaApproved'', Kind = [], DataOnly = False, Correlation = []\<rparr> \<and>
   [] \<noteq> EventKindConsumed \<and>
   map_sum id Kind
       (decodeEvent () (JObject [(''name'', JString ''e''), (''kind'', JString ''produced'')])) =
     Inr EventKindProduced \<and>
   map_sum id (\<lambda>e. EventStructLevelValidation ''Event.'' e [])
       (decodeEvent () (JObject [(''name'', JString ''e'')])) = Inr [] \<and>
   map_sum id (\<lambda>e. EventStructLevelValidation ''Event.'' e [])
       (decodeEvent () (JObject [(''name'', JString ''e''), (''kind'', JString ''consumed'')])) =
     Inr [(''Event.Type'', \<lparr>Field = ''Type'', Tag = ''reqtypeconsumed''\<rparr>)]"
  by (simp add: decodeEvent_def eventFields_def setEventField_def zeroEvent_def
      EventKindConsumed_def EventKindProduced_def EventStructLevelValidation_def
      ReportError_def decode_concrete)

section \<open>Discriminator closure\<close>

lemma resolveState_recognised:
  "recognised registry kvs \<Longrightarrow> \<exists>s. resolveState registry p kvs = Inr s"
  by (auto simp: recognised_def resolveState_def split: json.splits option.splits)

lemma resolveState_unrecognised:
  "\<not> recognised registry kvs \<Longrightarrow>
     resolveState registry p kvs =
       Inl (UnsupportedTypeError (p @ ''.type'') (stateDiscriminator kvs))"
  by (auto simp: recognised_def resolveState_def split: json.splits option.splits)

text \<open>
  Resolution stops at the first state whose discriminator is outside the enumeration,
  wherever the sequence starts counting.
\<close>

lemma resolveStates_first_offender:
  "\<exists>kvs \<in> set states. \<not> recognised registry kvs \<Longrightarrow>
     \<exists>i < length states.
        \<not> recognised registry (states ! i) \<and>
        (\<forall>j < i. recognised registry (states ! j)) \<and>
        resolveStates registry n states =
          Inl (UnsupportedTypeError (statePath (n + i) @ ''.type'')
                (stateDiscriminator (states ! i)))"
proof (induction states arbitrary: n)
  case Nil
  then show ?case by simp
next
  case (Cons kvs rest)
  show ?case
  proof (cases "recognised registry kvs")
    case False
    from resolveState_unrecognised [OF False, of "statePath n"]
    have "resolveStates registry n (kvs # rest) =
        Inl (UnsupportedTypeError (statePath n @ ''.type'') (stateDiscriminator kvs))"
      by simp
    with False show ?thesis by (intro exI [of _ 0]) simp
  next
    case True
    with Cons.prems have "\<exists>kvs \<in> set rest. \<not> recognised registry kvs" by auto
    from Cons.IH [OF this, of "Suc n"] obtain i where i: "i < length rest"
      "\<not> recognised registry (rest ! i)" "\<forall>j < i. recognised registry (rest ! j)"
      "resolveStates registry (Suc n) rest =
          Inl (UnsupportedTypeError (statePath (Suc n + i) @ ''.type'')
                (stateDiscriminator (rest ! i)))"
      by blast
    from resolveState_recognised [OF True, of "statePath n"] obtain s where
      s: "resolveState registry (statePath n) kvs = Inr s" by blast
    have all: "\<forall>j < Suc i. recognised registry ((kvs # rest) ! j)"
      using True i(3) by (auto simp: less_Suc_eq_0_disj)
    show ?thesis
      using i(1,2,4) s all by (intro exI [of _ "Suc i"]) simp
  qed
qed

text \<open>
  C3: when some state of the document has in its field \<^verbatim>\<open>type\<close> a string outside the
  closed enumeration, resolving the states fails with an \<^verbatim>\<open>UnsupportedTypeError\<close> that
  carries the path of the \<^verbatim>\<open>type\<close> field of an offending state, the first one of the
  document, and the value found there; a state whose \<^verbatim>\<open>type\<close> is a string of the
  enumeration is decoded by the variant registered for that string.
\<close>

theorem unsupported_state_type_is_reported:
  "((\<exists>kvs \<in> set states. \<exists>t. lookupKey kvs ''type'' = Some (JString t) \<and> map_of registry t = None) \<longrightarrow>
      (\<exists>i < length states.
          \<not> recognised registry (states ! i) \<and>
          (\<forall>j < i. recognised registry (states ! j)) \<and>
          resolveStates registry 0 states =
            Inl (UnsupportedTypeError (statePath i @ ''.type'')
                  (stateDiscriminator (states ! i))))) \<and>
   (lookupKey kvs ''type'' = Some (JString t) \<and> map_of registry t = Some dec \<longrightarrow>
      resolveState registry p kvs = Inr (dec kvs))"
proof (intro conjI impI)
  assume "\<exists>kvs \<in> set states. \<exists>t. lookupKey kvs ''type'' = Some (JString t) \<and> map_of registry t = None"
  then obtain kvs' t' where in_states: "kvs' \<in> set states"
    and "lookupKey kvs' ''type'' = Some (JString t')" and "map_of registry t' = None"
    by blast
  then have "\<not> recognised registry kvs'"
    by (simp add: recognised_def stateDiscriminator_def)
  with in_states have "\<exists>kvs \<in> set states. \<not> recognised registry kvs" by blast
  from resolveStates_first_offender [OF this, of 0]
  show "\<exists>i < length states.
          \<not> recognised registry (states ! i) \<and>
          (\<forall>j < i. recognised registry (states ! j)) \<and>
          resolveStates registry 0 states =
            Inl (UnsupportedTypeError (statePath i @ ''.type'')
                  (stateDiscriminator (states ! i)))"
    by simp
next
  assume "lookupKey kvs ''type'' = Some (JString t) \<and> map_of registry t = Some dec"
  then show "resolveState registry p kvs = Inr (dec kvs)"
    by (simp add: resolveState_def stateDiscriminator_def)
qed

theorem unsupported_state_type_is_reported_witness:
  "resolveStates [(''operation'', \<lambda>kvs. ''OperationState''), (''switch'', \<lambda>kvs. ''SwitchState'')] 0
     [[(''name'', JString ''CheckVisaStatus''), (''type'', JString ''switch'')],
      [(''name'', JString ''HandleApprovedVisa''), (''type'', JString ''operation'')],
      [(''name'', JString ''HandleRejectedVisa''), (''type'', JString ''teleport'')],
      [(''name'', JString ''HandleNoVisaDecision''), (''type'', JString ''operation'')]] =
     Inl (UnsupportedTypeError ''states[2].type'' (JString ''teleport'')) \<and>
   resolveStates [(''operation'', \<lambda>kvs. ''OperationState''), (''switch'', \<lambda>kvs. ''SwitchState'')] 0
     [[(''name'', JString ''CheckVisaStatus''), (''type'', JString ''switch'')],
      [(''name'', JString ''HandleApprovedVisa''), (''type'', JString ''operation'')],
      [(''name'', JString ''HandleRejectedVisa''), (''type'', JString ''operation'')],
      [(''name'', JString ''HandleNoVisaDecision''), (''type'', JString ''operation'')]] =
     Inr [''SwitchState'', ''OperationState'', ''OperationState'', ''OperationState''] \<and>
   resolveState [(''operation'', \<lambda>kvs. ''OperationState''), (''switch'', \<lambda>kvs. ''SwitchState'')]
     ''states[0]'' [(''name'', JString ''CheckVisaStatus''), (''type'', JString ''switch'')] =
     Inr ''SwitchState''"
  using unsupported_state_type_is_reported
    [of "[[(''name'', JString ''CheckVisaStatus''), (''type'', JString ''switch'')],
          [(''name'', JString ''HandleApprovedVisa''), (''type'', JString ''operation'')],
          [(''name'', JString ''HandleRejectedVisa''), (''type'', JString ''teleport'')],
          [(''name'', JString ''HandleNoVisaDecision''), (''type'', JString ''operation'')]]"
        "[(''operation'', \<lambda>kvs. ''OperationState''), (''switch'', \<lambda>kvs. ''SwitchState'')]"
        "[(''name'', JString ''CheckVisaStatus''), (''type'', JString ''switch'')]"
        "''switch''" "\<lambda>kvs. ''SwitchState''" "''states[0]''"]
  by (simp add: resolveState_def stateDiscriminator_def lookupKey_def statePath_def
      showNat.simps digit_def)

section \<open>Int-or-string\<close>

lemma digitValue_digit: "d < 10 \<Longrightarrow> digitValue (digit d) = Some d"
proof -
  assume "d < 10"
  then have "d = 0 \<or> d = 1 \<or> d = 2 \<or> d = 3 \<or> d = 4 \<or> d = 5 \<or> d = 6 \<or> d = 7 \<or>
      d = 8 \<or> d = 9" by arith
  then show ?thesis
    by (elim disjE) (simp_all add: digitValue_def digit_def upt_rec)
qed

lemma digit_not_minus: "d < 10 \<Longrightarrow> digit d \<noteq> CHR ''-''"
proof -
  assume "d < 10"
  then have "d = 0 \<or> d = 1 \<or> d = 2 \<or> d = 3 \<or> d = 4 \<or> d = 5 \<or> d = 6 \<or> d = 7 \<or>
      d = 8 \<or> d = 9" by arith
  then show ?thesis
    by (elim disjE) (simp_all add: digit_def)
qed

lemma parseDigits_append:
  "parseDigits acc (xs @ ys) = Option.bind (parseDigits acc xs) (\<lambda>n. parseDigits n ys)"
  by (induction xs arbitrary: acc) (auto split: option.splits)

lemma parseDigits_showNat: "parseDigits 0 (showNat n) = Some n"
proof (induction n rule: showNat.induct)
  case (1 n)
  show ?case
  proof (cases "n < 10")
    case True
    then show ?thesis by (subst showNat.simps) (simp add: digitValue_digit)
  next
    case False
    with 1 have "parseDigits 0 (showNat (n div 10)) = Some (n div 10)" by simp
    with False show ?thesis
      by (subst showNat.simps) (simp add: parseDigits_append digitValue_digit)
  qed
qed

lemma showNat_not_minus: "showNat n \<noteq> [] \<and> hd (showNat n) \<noteq> CHR ''-''"
proof (induction n rule: showNat.induct)
  case (1 n)
  show ?case
  proof (cases "n < 10")
    case True
    then have "showNat n = [digit n]" by (subst showNat.simps) simp
    with True show ?thesis by (simp add: digit_not_minus)
  next
    case False
    then have "showNat n = showNat (n div 10) @ [digit (n mod 10)]"
      by (subst showNat.simps) simp
    with 1 False show ?thesis by simp
  qed
qed

lemma numericString_showNat: "numericString (showNat n) = Some (int n)"
  using showNat_not_minus [of n] parseDigits_showNat [of n]
  by (cases "showNat n") (auto simp: numericString_def)

lemma intOrString_asNumberValue: "intOrString (asNumberValue v) = intOrString v"
  by (auto simp: asNumberValue_def intOrString_def split: json.splits option.splits)

lemma map_of_map_value:
  "map_of (map (\<lambda>(k, v). if k = m then (k, g v) else (k, v)) xs) k' =
     (if k' = m then map_option g (map_of xs k') else map_of xs k')"
  by (induction xs) auto

lemma lookupKey_numberAttempts:
  "lookupKey (numberAttempts kvs) k =
     (if k = ''maxAttempts'' then map_option asNumberValue (lookupKey kvs k)
      else lookupKey kvs k)"
  by (simp add: lookupKey_def numberAttempts_def rev_map map_of_map_value)

lemma resolveRetry_numberAttempts: "resolveRetry (numberAttempts kvs) = resolveRetry kvs"
proof -
  have "Option.bind (map_option asNumberValue (lookupKey kvs ''maxAttempts'')) intOrString =
      Option.bind (lookupKey kvs ''maxAttempts'') intOrString"
    by (cases "lookupKey kvs ''maxAttempts''") (simp_all add: intOrString_asNumberValue)
  then show ?thesis
    by (simp add: resolveRetry_def lookupKey_numberAttempts)
qed

text \<open>
  C6: the decimal numeral of a natural number, as a string, and the number itself resolve
  to the same integer. A retry strategy whose document gives max-attempts as a numeric
  string, at whatever place among its keys, and the document that differs from it only in
  giving max-attempts as the number (\<open>numberAttempts\<close>: every other key keeps its
  value) resolve to the same retry strategy, with that integer as max-attempts; for
  \<^verbatim>\<open>"10"\<close> and \<^verbatim>\<open>10\<close> that is the integer 10. Validation receives the resolved
  retry strategies and nothing of the document, so \<^verbatim>\<open>validate\<close> gives the same
  result, model or violations, for the two documents, under every rule table of the
  structural pass and of the graph pass.
\<close>

theorem numeric_string_is_its_integer:
  "intOrString (JString (showNat n)) = Some (int n) \<and>
   intOrString (JNumber (int n)) = Some (int n) \<and>
   resolveRetry (numberAttempts kvs) = resolveRetry kvs \<and>
   (\<forall>k. k \<noteq> ''maxAttempts'' \<longrightarrow> lookupKey (numberAttempts kvs) k = lookupKey kvs k) \<and>
   (lookupKey kvs ''maxAttempts'' = Some (JString (showNat n)) \<longrightarrow>
      lookupKey (numberAttempts kvs) ''maxAttempts'' = Some (JNumber (int n)) \<and>
      MaxAttempts (resolveRetry kvs) = Some (int n) \<and>
      MaxAttempts (resolveRetry (numberAttempts kvs)) = Some (int n)) \<and>
   resolveRetry (kvs @ [(''maxAttempts'', JString ''10'')]) =
     resolveRetry (kvs @ [(''maxAttempts'', JNumber 10)]) \<and>
   MaxAttempts (resolveRetry (kvs @ [(''maxAttempts'', JString ''10'')])) = Some 10 \<and>
   validate structuralPass graphPass toModel (map resolveRetry (map numberAttempts docs)) =
     validate structuralPass graphPass toModel (map resolveRetry docs)"
proof -
  have ten: "intOrString (JString ''10'') = Some 10"
    by (simp add: intOrString_def numericString_def digitValue_def upt_rec)
  have eq10: "resolveRetry (kvs @ [(''maxAttempts'', JString ''10'')]) =
     resolveRetry (kvs @ [(''maxAttempts'', JNumber 10)])"
    by (simp add: resolveRetry_def lookupKey_def ten) (simp add: intOrString_def)
  have ma10: "MaxAttempts (resolveRetry (kvs @ [(''maxAttempts'', JString ''10'')])) = Some 10"
    by (simp add: resolveRetry_def lookupKey_def ten)
  have given: "lookupKey kvs ''maxAttempts'' = Some (JString (showNat n)) \<longrightarrow>
      lookupKey (numberAttempts kvs) ''maxAttempts'' = Some (JNumber (int n)) \<and>
      MaxAttempts (resolveRetry kvs) = Some (int n) \<and>
      MaxAttempts (resolveRetry (numberAttempts kvs)) = Some (int n)"
    by (simp add: lookupKey_numberAttempts asNumberValue_def numericString_showNat
        resolveRetry_numberAttempts)
       (simp add: resolveRetry_def intOrString_def numericString_showNat)
  have docs: "validate structuralPass graphPass toModel
       (map resolveRetry (map numberAttempts docs)) =
     validate structuralPass graphPass toModel (map resolveRetry docs)"
    by (simp add: resolveRetry_numberAttempts comp_def)
  have others: "\<forall>k. k \<noteq> ''maxAttempts'' \<longrightarrow> lookupKey (numberAttempts kvs) k = lookupKey kvs k"
    by (simp add: lookupKey_numberAttempts)
  have str: "intOrString (JString (showNat n)) = Some (int n)"
    by (simp add: intOrString_def numericString_showNat)
  have num: "intOrString (JNumber (int n)) = Some (int n)"
    by (simp add: intOrString_def)
  from str num resolveRetry_numberAttempts [of kvs] others given eq10 ma10 docs
  show ?thesis by blast
qed

text \<open>
  The theorem at three retry strategies, max-attempts in the middle of the first: the
  second has no name and the third repeats the name of the first, so the structural pass
  and the graph pass each report a violation, the same for the numeric strings and for
  the numbers; the first strategy alone passes both ways with max-attempts 10.
\<close>

theorem numeric_string_is_its_integer_witness:
  "numberAttempts
     [(''name'', JString ''ServicesNotAvailableRetryStrategy''), (''maxAttempts'', JString ''10''),
      (''delay'', JString ''PT3S'')] =
     [(''name'', JString ''ServicesNotAvailableRetryStrategy''), (''maxAttempts'', JNumber 10),
      (''delay'', JString ''PT3S'')] \<and>
   validate (retryNameRequired 0) retryNameUnique id
     (map resolveRetry
        [[(''name'', JString ''ServicesNotAvailableRetryStrategy''),
          (''maxAttempts'', JString ''10''), (''delay'', JString ''PT3S'')]]) =
     Inr [\<lparr>RetryName = Some (JString ''ServicesNotAvailableRetryStrategy''),
           Delay = Some (JString ''PT3S''), MaxDelay = None, MaxAttempts = Some 10,
           Multiplier = None, Jitter = None\<rparr>] \<and>
   validate (retryNameRequired 0) retryNameUnique id
     (map resolveRetry
        [[(''name'', JString ''ServicesNotAvailableRetryStrategy''),
          (''maxAttempts'', JNumber 10), (''delay'', JString ''PT3S'')]]) =
     Inr [\<lparr>RetryName = Some (JString ''ServicesNotAvailableRetryStrategy''),
           Delay = Some (JString ''PT3S''), MaxDelay = None, MaxAttempts = Some 10,
           Multiplier = None, Jitter = None\<rparr>] \<and>
   validate (retryNameRequired 0) retryNameUnique id
     (map resolveRetry
        [[(''name'', JString ''ServicesNotAvailableRetryStrategy''),
          (''maxAttempts'', JString ''10''), (''delay'', JString ''PT3S'')],
         [(''maxAttempts'', JString ''3'')],
         [(''maxAttempts'', JString ''5''),
          (''name'', JString ''ServicesNotAvailableRetryStrategy'')]]) =
     Inl (ValidationError
       [\<lparr>FieldPath = ''retries[1].name'', Expected = ''a name'', ReasonCode = ''required''\<rparr>,
        \<lparr>FieldPath = ''retries'', Expected = ''names that differ'', ReasonCode = ''unique''\<rparr>]) \<and>
   validate (retryNameRequired 0) retryNameUnique id
     (map resolveRetry
        [[(''name'', JString ''ServicesNotAvailableRetryStrategy''),
          (''maxAttempts'', JNumber 10), (''delay'', JString ''PT3S'')],
         [(''maxAttempts'', JNumber 3)],
         [(''maxAttempts'', JNumber 5),
          (''name'', JString ''ServicesNotAvailableRetryStrategy'')]]) =
     Inl (ValidationError
       [\<lparr>FieldPath = ''retries[1].name'', Expected = ''a name'', ReasonCode = ''required''\<rparr>,
        \<lparr>FieldPath = ''retries'', Expected = ''names that differ'', ReasonCode = ''unique''\<rparr>])"
  using numeric_string_is_its_integer
    [of 10 "[(''name'', JString ''ServicesNotAvailableRetryStrategy''),
             (''maxAttempts'', JString ''10''), (''delay'', JString ''PT3S'')]"
        "retryNameRequired 0" retryNameUnique id
        "[[(''name'', JString ''ServicesNotAvailableRetryStrategy''),
           (''maxAttempts'', JString ''10''), (''delay'', JString ''PT3S'')],
          [(''maxAttempts'', JString ''3'')],
          [(''maxAttempts'', JString ''5''),
           (''name'', JString ''ServicesNotAvailableRetryStrategy'')]]"]
  by (simp add: showNat.simps digit_def resolveRetry_def lookupKey_def numberAttempts_def
      asNumberValue_def numericString_def digitValue_def upt_rec intOrString_def validate_def
      retryNameUnique_def retryPath_def)

end
